theory Spec2Isabelle
  imports Complex_Main
begin

section \<open>Python values and strings\<close>

text \<open>
  A string is a list of code points below 256, one \<^typ>\<open>char\<close> each (ASCII and the
  Latin-1 supplement); code points from 256 on are outside the model.  On these code
  points the three string methods used by the router are Python's:
  \<^verbatim>\<open>lower\<close> maps A to Z onto a to z and the upper-case letters 0xC0 to 0xDE (0xD7,
  the multiplication sign, excepted) onto 0xE0 to 0xFE, and leaves every other
  character alone; \<^verbatim>\<open>strip\<close> removes from both ends the characters for which
  \<^verbatim>\<open>str.isspace\<close> holds, which are 0x09 to 0x0D, 0x1C to 0x1F, the blank, 0x85
  and 0xA0.
\<close>

definition upper_letters :: "char list" where
  "upper_letters =
     ''ABCDEFGHIJKLMNOPQRSTUVWXYZ''
     @ [CHR 0xC0, CHR 0xC1, CHR 0xC2, CHR 0xC3, CHR 0xC4, CHR 0xC5,
           CHR 0xC6, CHR 0xC7, CHR 0xC8, CHR 0xC9, CHR 0xCA, CHR 0xCB,
           CHR 0xCC, CHR 0xCD, CHR 0xCE, CHR 0xCF, CHR 0xD0, CHR 0xD1,
           CHR 0xD2, CHR 0xD3, CHR 0xD4, CHR 0xD5, CHR 0xD6, CHR 0xD8,
           CHR 0xD9, CHR 0xDA, CHR 0xDB, CHR 0xDC, CHR 0xDD, CHR 0xDE]"

definition lower_letters :: "char list" where
  "lower_letters =
     ''abcdefghijklmnopqrstuvwxyz''
     @ [CHR 0xE0, CHR 0xE1, CHR 0xE2, CHR 0xE3, CHR 0xE4, CHR 0xE5,
           CHR 0xE6, CHR 0xE7, CHR 0xE8, CHR 0xE9, CHR 0xEA, CHR 0xEB,
           CHR 0xEC, CHR 0xED, CHR 0xEE, CHR 0xEF, CHR 0xF0, CHR 0xF1,
           CHR 0xF2, CHR 0xF3, CHR 0xF4, CHR 0xF5, CHR 0xF6, CHR 0xF8,
           CHR 0xF9, CHR 0xFA, CHR 0xFB, CHR 0xFC, CHR 0xFD, CHR 0xFE]"

definition lower_char :: "char \<Rightarrow> char" where
  "lower_char c =
     (case map_of (zip upper_letters lower_letters) c of
        Some l \<Rightarrow> l
      | None \<Rightarrow> c)"

definition lower :: "string \<Rightarrow> string" where
  "lower s = map lower_char s"

definition replace_char :: "char \<Rightarrow> char \<Rightarrow> string \<Rightarrow> string" where
  "replace_char old new s = map (\<lambda>c. if c = old then new else c) s"

definition isspace :: "char \<Rightarrow> bool" where
  "isspace c \<longleftrightarrow>
     c \<in> set [CHR 0x09, CHR 0x0A, CHR 0x0B, CHR 0x0C, CHR 0x0D,
               CHR 0x1C, CHR 0x1D, CHR 0x1E, CHR 0x1F, CHR 0x20,
               CHR 0x85, CHR 0xA0]"

definition strip :: "string \<Rightarrow> string" where
  "strip s = rev (dropWhile isspace (rev (dropWhile isspace s)))"

fun join :: "string \<Rightarrow> string list \<Rightarrow> string" where
  "join sep [] = []"
| "join sep [x] = x"
| "join sep (x # y # ys) = x @ sep @ join sep (y # ys)"

text \<open>\<^verbatim>\<open>quote = lambda v: f"'{v}'"\<close>, also the quoting inside the messages.\<close>

definition quote :: "string \<Rightarrow> string" where
  "quote v = [CHR 0x27] @ v @ [CHR 0x27]"

text \<open>
  Values that cross the boundary to the scoring engine (score cards, breakdown rows,
  filter dictionaries) are dynamically typed.  Floats are only ever carried, never
  computed with, in this layer.
\<close>

datatype pyval =
    PyNone
  | PyBool bool
  | PyInt int
  | PyFloat real
  | PyStr string
  | PyList "pyval list"
  | PyDict "(string \<times> pyval) list"

type_synonym pydict = "string \<rightharpoonup> pyval"

text \<open>\<^verbatim>\<open>d.get(key, default)\<close>\<close>

definition dict_get :: "('k \<rightharpoonup> 'v) \<Rightarrow> 'k \<Rightarrow> 'v \<Rightarrow> 'v" where
  "dict_get d key dflt = (case d key of None \<Rightarrow> dflt | Some v \<Rightarrow> v)"

section \<open>Errors\<close>

text \<open>
  \<^verbatim>\<open>HTTPException(status_code, detail)\<close> is what the handlers raise themselves.
  \<^verbatim>\<open>RequestValidationError\<close> is what the framework raises, before the handler body
  runs, when a path or query parameter does not fit its declared type; it carries the
  names of the offending parameters and is answered with status 422.
  \<^verbatim>\<open>ValidationError\<close> (a response model refusing its input) and \<^verbatim>\<open>KeyError\<close>
  are not caught anywhere and surface as status 500.
\<close>

datatype error =
    HTTPException nat string
  | RequestValidationError "string list"
  | ValidationError
  | KeyError string

fun status_code :: "error \<Rightarrow> nat" where
  "status_code (HTTPException n detail) = n"
| "status_code (RequestValidationError locs) = 422"
| "status_code ValidationError = 500"
| "status_code (KeyError k) = 500"

text \<open>A list comprehension whose element expression may raise: the first error wins.\<close>

fun traverse :: "('a \<Rightarrow> error + 'b) \<Rightarrow> 'a list \<Rightarrow> error + 'b list" where
  "traverse f [] = Inr []"
| "traverse f (x # xs) =
     (case f x of
        Inl e \<Rightarrow> Inl e
      | Inr y \<Rightarrow> (case traverse f xs of Inl e \<Rightarrow> Inl e | Inr ys \<Rightarrow> Inr (y # ys)))"

section \<open>The group-by vocabulary\<close>

text \<open>\<^verbatim>\<open>class GroupByCategory(str, Enum)\<close>, members in declaration order.\<close>

datatype GroupByCategory =
    column_name
  | table_name
  | dq_dimension
  | semantic_data_type
  | table_groups_name
  | data_location
  | data_source
  | source_system
  | source_process
  | business_domain
  | stakeholder_group
  | transform_level
  | data_product

definition GroupByCategory_members :: "GroupByCategory list" where
  "GroupByCategory_members =
     [GroupByCategory.column_name, GroupByCategory.table_name, GroupByCategory.dq_dimension,
      GroupByCategory.semantic_data_type, GroupByCategory.table_groups_name,
      GroupByCategory.data_location, GroupByCategory.data_source,
      GroupByCategory.source_system, GroupByCategory.source_process,
      GroupByCategory.business_domain, GroupByCategory.stakeholder_group,
      GroupByCategory.transform_level, GroupByCategory.data_product]"

text \<open>The \<^verbatim>\<open>.value\<close> of a member.\<close>

fun GroupByCategory_value :: "GroupByCategory \<Rightarrow> string" where
  "GroupByCategory_value GroupByCategory.column_name = ''column_name''"
| "GroupByCategory_value GroupByCategory.table_name = ''table_name''"
| "GroupByCategory_value GroupByCategory.dq_dimension = ''dq_dimension''"
| "GroupByCategory_value GroupByCategory.semantic_data_type = ''semantic_data_type''"
| "GroupByCategory_value GroupByCategory.table_groups_name = ''table_groups_name''"
| "GroupByCategory_value GroupByCategory.data_location = ''data_location''"
| "GroupByCategory_value GroupByCategory.data_source = ''data_source''"
| "GroupByCategory_value GroupByCategory.source_system = ''source_system''"
| "GroupByCategory_value GroupByCategory.source_process = ''source_process''"
| "GroupByCategory_value GroupByCategory.business_domain = ''business_domain''"
| "GroupByCategory_value GroupByCategory.stakeholder_group = ''stakeholder_group''"
| "GroupByCategory_value GroupByCategory.transform_level = ''transform_level''"
| "GroupByCategory_value GroupByCategory.data_product = ''data_product''"

text \<open>
  \<^verbatim>\<open>GroupByCategory(token)\<close>: the member whose value is the token, if any.  This is the
  conversion the framework applies to a query parameter declared
  \<^verbatim>\<open>group_by: GroupByCategory = Query(...)\<close>.
\<close>

definition GroupByCategory_of_value :: "string \<Rightarrow> GroupByCategory option" where
  "GroupByCategory_of_value token =
     find (\<lambda>m. GroupByCategory_value m = token) GroupByCategory_members"

text \<open>The dictionary \<^verbatim>\<open>group_by_mapping\<close> of both handlers, in source order.\<close>

definition group_by_mapping :: "(string \<times> string) list" where
  "group_by_mapping =
     [(''table_group'', ''table_groups_name''),
      (''table group'', ''table_groups_name''),
      (''tablegroup'', ''table_groups_name'')]"

text \<open>
  \<^verbatim>\<open>group_by_mapping.get(group_by_value.lower().replace("_", " ").strip(), group_by_value)\<close>
\<close>

definition alias_key :: "string \<Rightarrow> string" where
  "alias_key group_by_value = strip (replace_char CHR ''_'' CHR '' '' (lower group_by_value))"

definition normalize_group_by :: "string \<Rightarrow> string" where
  "normalize_group_by group_by_value =
     dict_get (map_of group_by_mapping) (alias_key group_by_value) group_by_value"

text \<open>The list \<^verbatim>\<open>valid_categories\<close> of both handlers.\<close>

definition valid_categories :: "string list" where
  "valid_categories =
     [''column_name'', ''table_name'', ''dq_dimension'', ''semantic_data_type'',
      ''table_groups_name'', ''data_location'', ''data_source'', ''source_system'',
      ''source_process'', ''business_domain'', ''stakeholder_group'', ''transform_level'',
      ''data_product'']"

section \<open>Request and response schemas\<close>

text \<open>
  Record fields carry a short prefix naming their class, so that the handlers'
  parameters and local variables can keep the names they have in the source.
\<close>

text \<open>\<^verbatim>\<open>DashboardFilterCreate\<close>; \<^verbatim>\<open>others\<close> is a list of string dictionaries.\<close>

record DashboardFilterCreate =
  f_field :: string
  f_value :: string
  f_others :: "(string \<times> string) list list"

text \<open>
  \<^verbatim>\<open>DashboardUpdate\<close>: every field is optional, \<open>None\<close> is the absent field.
  The schema restricts \<^verbatim>\<open>category\<close> to ten literal names.
\<close>

record DashboardUpdate =
  upd_name :: "string option"
  upd_total_score :: "bool option"
  upd_cde_score :: "bool option"
  upd_category :: "string option"
  upd_filters :: "DashboardFilterCreate list option"
  upd_group_by_field :: "bool option"

record CategoryScore =
  cs_label :: string
  cs_score :: "string option"

record HistoryEntry =
  he_score :: real
  he_category :: string
  he_time :: string

record DashboardResponse =
  resp_id :: string
  resp_project_code :: string
  resp_name :: string
  resp_score :: "string option"
  resp_cde_score :: "string option"
  resp_profiling_score :: "string option"
  resp_testing_score :: "string option"
  resp_categories_label :: "string option"
  resp_categories :: "CategoryScore list"
  resp_history :: "HistoryEntry list"

record ColumnHierarchy =
  ch_column_id :: string
  ch_column_name :: string
  ch_table_id :: string
  ch_table_name :: string
  ch_table_group_id :: string
  ch_table_group_name :: string

text \<open>
  \<^verbatim>\<open>FilterOptions\<close>.  A \<^verbatim>\<open>Dict[str, str]\<close> is an association list in key order,
  \<^verbatim>\<open>filter_values\<close> an association list in insertion order.
\<close>

record FilterOptions =
  fo_filter_fields_metadata :: "(string \<times> string) list list"
  fo_filter_values :: "(string \<times> string list) list"
  fo_columns :: "ColumnHierarchy list"
  fo_category_options :: "(string \<times> string) list list"
  fo_score_grouping_options :: "(string \<times> string) list list"
  fo_score_type_options :: "(string \<times> string) list list"

section \<open>The scoring store and engine, as the router sees them\<close>

text \<open>A member of the engine's \<^verbatim>\<open>ScoreCategory\<close> enumeration: its name and its value.\<close>

datatype ScoreCategory = ScoreCategory (member_name: string) (member_value: string)

text \<open>
  \<^verbatim>\<open>ScoreDefinition\<close>, the dashboard object the handlers read and mutate.  The
  criteria structure belongs to the engine and stays abstract (\<open>'c\<close>).
\<close>

record 'c ScoreDefinition =
  sd_id :: string
  sd_project_code :: string
  sd_name :: string
  sd_total_score :: bool
  sd_cde_score :: bool
  sd_category :: "ScoreCategory option"
  sd_criteria :: 'c
  sd_history :: "pyval list"

text \<open>Rows of the two queries of the filter-options helpers; SQL NULL is \<open>None\<close>.\<close>

record category_value_row =
  row_category :: "string option"
  row_value :: "string option"

record column_row =
  row_column_id :: "string option"
  row_column_name :: "string option"
  row_table_id :: "string option"
  row_table_name :: "string option"
  row_table_group_id :: "string option"
  row_table_group_name :: "string option"

text \<open>
  Everything the router imports from outside this repository is a field of one record
  of collaborators: the project table, the UUID parser, the score-definition store,
  the engine's computations, the formatting helpers, the response-model validators
  for engine-shaped dictionaries, and the rows the two SQL queries return for a
  project.  \<open>format_score_card_breakdown\<close> and \<open>format_score_card_issues\<close> stand for
  the \<^verbatim>\<open>"items"\<close> entry of the helper's result.  \<open>format_GroupByCategory\<close> is how
  an f-string renders an enumeration member (its value up to Python 3.10, its
  qualified name from 3.11 on).
\<close>

record 'c collaborators =
  Project_exists :: "string \<Rightarrow> bool"
  UUID_parses :: "string \<Rightarrow> bool"
  ScoreDefinition_get :: "string \<Rightarrow> 'c ScoreDefinition option"
  ScoreDefinition_all ::
    "string option \<Rightarrow> string option \<Rightarrow> string \<Rightarrow> nat \<Rightarrow> 'c ScoreDefinition list"
  ScoreCategory_getitem :: "string \<Rightarrow> ScoreCategory option"
  ScoreDefinitionCriteria_from_filters :: "pyval list \<Rightarrow> bool \<Rightarrow> 'c"
  as_score_card :: "'c ScoreDefinition \<Rightarrow> pydict"
  as_cached_score_card :: "'c ScoreDefinition \<Rightarrow> bool \<Rightarrow> pydict"
  get_score_card_breakdown :: "'c ScoreDefinition \<Rightarrow> string \<Rightarrow> string \<Rightarrow> pyval"
  get_score_card_issues :: "'c ScoreDefinition \<Rightarrow> string \<Rightarrow> string \<Rightarrow> string \<Rightarrow> pyval"
  format_score_card :: "pydict \<Rightarrow> pyval"
  format_score_card_breakdown :: "pyval \<Rightarrow> string \<Rightarrow> pyval list"
  format_score_card_issues :: "pyval \<Rightarrow> string \<Rightarrow> pyval list"
  DashboardResponse_validate :: "pyval \<Rightarrow> error + DashboardResponse"
  BreakdownItem_validate :: "pyval \<Rightarrow> error + pyval"
  IssueItem_validate :: "pyval \<Rightarrow> error + pyval"
  format_GroupByCategory :: "GroupByCategory \<Rightarrow> string"
  fetch_category_values :: "string \<Rightarrow> category_value_row list"
  fetch_column_rows :: "string \<Rightarrow> column_row list"

text \<open>
  Each handler returns its outcome together with the calls it made to the store, the
  engine and the database, in the order it made them.
\<close>

datatype query = category_values_query "string list" | column_hierarchy_query

datatype 'c call =
    Project_query string
  | ScoreDefinition_get_call string
  | ScoreDefinition_all_call "string option" "string option" string nat
  | as_score_card_call "'c ScoreDefinition"
  | as_cached_score_card_call "'c ScoreDefinition" bool
  | get_score_card_breakdown_call "'c ScoreDefinition" string string
  | get_score_card_issues_call "'c ScoreDefinition" string string string
  | save_call "'c ScoreDefinition"
  | fetch_all_from_db_call query string

fun is_score_card_call :: "'c call \<Rightarrow> bool" where
  "is_score_card_call (as_score_card_call d) = True"
| "is_score_card_call (as_cached_score_card_call d include_definition) = True"
| "is_score_card_call c = False"

fun is_fetch_call :: "'c call \<Rightarrow> bool" where
  "is_fetch_call (fetch_all_from_db_call q project_code) = True"
| "is_fetch_call c = False"

section \<open>Dependencies\<close>

definition validate_project_code ::
  "'c collaborators \<Rightarrow> string \<Rightarrow> (error + unit) \<times> 'c call list" where
  "validate_project_code B project_code =
     (if \<not> Project_exists B project_code
      then (Inl (HTTPException 404 (''Project '' @ quote project_code @ '' not found'')),
            [Project_query project_code])
      else (Inr (), [Project_query project_code]))"

definition validate_dashboard_id ::
  "'c collaborators \<Rightarrow> string \<Rightarrow> (error + 'c ScoreDefinition) \<times> 'c call list" where
  "validate_dashboard_id B dashboard_id =
     (if \<not> UUID_parses B dashboard_id
      then (Inl (HTTPException 400 (''Invalid dashboard ID format: '' @ dashboard_id)), [])
      else (case ScoreDefinition_get B dashboard_id of
              None \<Rightarrow>
                (Inl (HTTPException 404 (''Dashboard '' @ quote dashboard_id @ '' not found'')),
                 [ScoreDefinition_get_call dashboard_id])
            | Some dashboard \<Rightarrow> (Inr dashboard, [ScoreDefinition_get_call dashboard_id])))"

section \<open>Breakdown and issues\<close>

text \<open>
  The body of \<^verbatim>\<open>get_dashboard_breakdown\<close>.  The parameter \<^verbatim>\<open>group_by\<close> is a member
  of the enumeration; the message of the 400 branch formats the member itself, not
  its value.
\<close>

definition invalid_group_by :: "'c collaborators \<Rightarrow> GroupByCategory \<Rightarrow> error" where
  "invalid_group_by B group_by =
     HTTPException 400
       (''Invalid group_by parameter: '' @ quote (format_GroupByCategory B group_by)
        @ ''. Must be one of: '' @ join '', '' valid_categories)"

definition get_dashboard_breakdown ::
  "'c collaborators \<Rightarrow> string \<Rightarrow> string \<Rightarrow> GroupByCategory
     \<Rightarrow> (error + pyval list) \<times> 'c call list" where
  "get_dashboard_breakdown B dashboard_id score_type group_by =
     (case validate_dashboard_id B dashboard_id of
        (Inl e, calls) \<Rightarrow> (Inl e, calls)
      | (Inr dashboard, calls) \<Rightarrow>
          (let group_by_value = GroupByCategory_value group_by;
               normalized_group_by = normalize_group_by group_by_value
           in if normalized_group_by \<notin> set valid_categories
              then (Inl (invalid_group_by B group_by), calls)
              else
                (let breakdown_data =
                       get_score_card_breakdown B dashboard score_type normalized_group_by;
                     formatted =
                       format_score_card_breakdown B breakdown_data normalized_group_by
                 in (traverse (BreakdownItem_validate B) formatted,
                     calls @ [get_score_card_breakdown_call dashboard score_type
                                normalized_group_by]))))"

definition get_dashboard_issues ::
  "'c collaborators \<Rightarrow> string \<Rightarrow> string \<Rightarrow> GroupByCategory \<Rightarrow> string
     \<Rightarrow> (error + pyval list) \<times> 'c call list" where
  "get_dashboard_issues B dashboard_id score_type group_by val =
     (case validate_dashboard_id B dashboard_id of
        (Inl e, calls) \<Rightarrow> (Inl e, calls)
      | (Inr dashboard, calls) \<Rightarrow>
          (let group_by_value = GroupByCategory_value group_by;
               normalized_group_by = normalize_group_by group_by_value
           in if normalized_group_by \<notin> set valid_categories
              then (Inl (invalid_group_by B group_by), calls)
              else
                (let issues_data =
                       get_score_card_issues B dashboard score_type normalized_group_by val;
                     formatted = format_score_card_issues B issues_data normalized_group_by
                 in (traverse (IssueItem_validate B) formatted,
                     calls @ [get_score_card_issues_call dashboard score_type
                                normalized_group_by val]))))"

text \<open>
  The routes as a client reaches them.  \<^verbatim>\<open>score_type\<close> is declared
  \<^verbatim>\<open>Literal["score", "cde_score"] = Query(...)\<close>, \<^verbatim>\<open>group_by\<close> is declared
  \<^verbatim>\<open>GroupByCategory = Query(...)\<close> and \<^verbatim>\<open>value\<close> is declared \<^verbatim>\<open>str = Query(...)\<close>:
  all are required, and the framework converts each raw query string to its declared
  type.  When a parameter is missing or does not convert, the handler is not called
  and the request fails with the names of the offending parameters.
\<close>

definition query_Literal :: "string list \<Rightarrow> string \<Rightarrow> string option \<Rightarrow> string + string" where
  "query_Literal allowed loc raw =
     (case raw of
        None \<Rightarrow> Inl loc
      | Some token \<Rightarrow> if token \<in> set allowed then Inr token else Inl loc)"

definition query_GroupByCategory :: "string \<Rightarrow> string option \<Rightarrow> string + GroupByCategory" where
  "query_GroupByCategory loc raw =
     (case raw of
        None \<Rightarrow> Inl loc
      | Some token \<Rightarrow>
          (case GroupByCategory_of_value token of None \<Rightarrow> Inl loc | Some m \<Rightarrow> Inr m))"

definition query_str :: "string \<Rightarrow> string option \<Rightarrow> string + string" where
  "query_str loc raw = (case raw of None \<Rightarrow> Inl loc | Some token \<Rightarrow> Inr token)"

fun locs :: "string + 'a \<Rightarrow> string list" where
  "locs (Inl loc) = [loc]"
| "locs (Inr v) = []"

definition breakdown_route ::
  "'c collaborators \<Rightarrow> string \<Rightarrow> string option \<Rightarrow> string option
     \<Rightarrow> (error + pyval list) \<times> 'c call list" where
  "breakdown_route B dashboard_id score_type group_by =
     (case (query_Literal [''score'', ''cde_score''] ''score_type'' score_type,
            query_GroupByCategory ''group_by'' group_by) of
        (Inr st, Inr g) \<Rightarrow> get_dashboard_breakdown B dashboard_id st g
      | (r1, r2) \<Rightarrow> (Inl (RequestValidationError (locs r1 @ locs r2)), []))"

definition issues_route ::
  "'c collaborators \<Rightarrow> string \<Rightarrow> string option \<Rightarrow> string option \<Rightarrow> string option
     \<Rightarrow> (error + pyval list) \<times> 'c call list" where
  "issues_route B dashboard_id score_type group_by val =
     (case (query_Literal [''score'', ''cde_score''] ''score_type'' score_type,
            query_GroupByCategory ''group_by'' group_by,
            query_str ''value'' val) of
        (Inr st, Inr g, Inr v) \<Rightarrow> get_dashboard_issues B dashboard_id st g v
      | (r1, r2, r3) \<Rightarrow> (Inl (RequestValidationError (locs r1 @ locs r2 @ locs r3)), []))"

section \<open>Listing dashboards\<close>

text \<open>
  Lines 162 to 167: the fresh card of one definition and, when history is requested
  and the definition has any, the history entry of its cached card written over the
  fresh card's \<^verbatim>\<open>"history"\<close> key.
\<close>

definition score_card_of ::
  "'c collaborators \<Rightarrow> bool \<Rightarrow> 'c ScoreDefinition \<Rightarrow> pydict \<times> 'c call list" where
  "score_card_of B include_history d =
     (let score_card = as_score_card B d
      in if include_history \<and> sd_history d \<noteq> []
         then (let cached_card = as_cached_score_card B d False
               in (score_card(''history'' \<mapsto> dict_get cached_card ''history'' (PyList [])),
                   [as_score_card_call d, as_cached_score_card_call d False]))
         else (score_card, [as_score_card_call d]))"

text \<open>The loop over the definitions; a response model that refuses its input ends it.\<close>

fun full_details ::
  "'c collaborators \<Rightarrow> bool \<Rightarrow> 'c ScoreDefinition list
     \<Rightarrow> (error + DashboardResponse list) \<times> 'c call list" where
  "full_details B include_history [] = (Inr [], [])"
| "full_details B include_history (d # ds) =
     (case score_card_of B include_history d of
        (score_card, calls) \<Rightarrow>
          (let formatted = format_score_card B score_card
           in case DashboardResponse_validate B formatted of
                Inl e \<Rightarrow> (Inl e, calls)
              | Inr r \<Rightarrow>
                  (case full_details B include_history ds of
                     (Inl e, calls') \<Rightarrow> (Inl e, calls @ calls')
                   | (Inr result, calls') \<Rightarrow> (Inr (r # result), calls @ calls'))))"

text \<open>The basic summary of one definition.\<close>

definition summary :: "'c ScoreDefinition \<Rightarrow> DashboardResponse" where
  "summary d =
     \<lparr>resp_id = sd_id d,
      resp_project_code = sd_project_code d,
      resp_name = sd_name d,
      resp_score = None,
      resp_cde_score = None,
      resp_profiling_score = None,
      resp_testing_score = None,
      resp_categories_label =
        (case sd_category d of None \<Rightarrow> None | Some c \<Rightarrow> Some (member_value c)),
      resp_categories = [],
      resp_history = []\<rparr>"

text \<open>Truth value of an \<^verbatim>\<open>Optional[str]\<close>.\<close>

definition truthy :: "string option \<Rightarrow> bool" where
  "truthy x = (case x of None \<Rightarrow> False | Some s \<Rightarrow> s \<noteq> [])"

definition list_dashboards ::
  "'c collaborators \<Rightarrow> string option \<Rightarrow> string option \<Rightarrow> string \<Rightarrow> bool \<Rightarrow> bool
     \<Rightarrow> (error + DashboardResponse list) \<times> 'c call list" where
  "list_dashboards B project_code name_filter sorted_by include_scores include_history =
     (case (case project_code of
              Some pc \<Rightarrow> if pc \<noteq> [] then validate_project_code B pc else (Inr (), [])
            | None \<Rightarrow> (Inr (), [])) of
        (Inl e, calls) \<Rightarrow> (Inl e, calls)
      | (Inr u, calls) \<Rightarrow>
          (let history_items = (if include_history then 50 else 0);
               definitions =
                 ScoreDefinition_all B project_code name_filter sorted_by history_items;
               calls1 =
                 calls @ [ScoreDefinition_all_call project_code name_filter sorted_by
                            history_items]
           in if include_scores \<or> include_history
              then (case full_details B include_history definitions of
                      (r, calls2) \<Rightarrow> (r, calls1 @ calls2))
              else (Inr (map summary definitions), calls1)))"

section \<open>Updating a dashboard\<close>

text \<open>The dictionary built for each filter of the request body.\<close>

definition filter_data :: "DashboardFilterCreate \<Rightarrow> pyval" where
  "filter_data f =
     PyDict [(''field'', PyStr (f_field f)),
             (''value'', PyStr (f_value f)),
             (''others'',
              PyList (map (\<lambda>other. PyDict (map (\<lambda>(k, v). (k, PyStr v)) other)) (f_others f)))]"

text \<open>
  Lines 377 to 400, the mutation of the loaded object.  \<^verbatim>\<open>ScoreCategory[name]\<close>
  raises \<^verbatim>\<open>KeyError\<close> for a name the engine's enumeration lacks.
\<close>

definition apply_updates ::
  "'c collaborators \<Rightarrow> 'c ScoreDefinition \<Rightarrow> DashboardUpdate \<Rightarrow> error + 'c ScoreDefinition" where
  "apply_updates B dashboard updates =
     (let d1 = (case upd_name updates of
                  None \<Rightarrow> dashboard
                | Some n \<Rightarrow> dashboard\<lparr>sd_name := n\<rparr>);
          d2 = (case upd_total_score updates of
                  None \<Rightarrow> d1
                | Some b \<Rightarrow> d1\<lparr>sd_total_score := b\<rparr>);
          d3 = (case upd_cde_score updates of
                  None \<Rightarrow> d2
                | Some b \<Rightarrow> d2\<lparr>sd_cde_score := b\<rparr>)
      in case (case upd_category updates of
                 None \<Rightarrow> Inr d3
               | Some c \<Rightarrow>
                   (case ScoreCategory_getitem B c of
                      None \<Rightarrow> Inl (KeyError c)
                    | Some m \<Rightarrow> Inr (d3\<lparr>sd_category := Some m\<rparr>))) of
           Inl e \<Rightarrow> Inl e
         | Inr d4 \<Rightarrow>
             Inr (case upd_filters updates of
                    None \<Rightarrow> d4
                  | Some fs \<Rightarrow>
                      (let filters_data = map filter_data fs
                       in d4\<lparr>sd_criteria :=
                              ScoreDefinitionCriteria_from_filters B filters_data
                                (case upd_group_by_field updates of
                                   None \<Rightarrow> True
                                 | Some b \<Rightarrow> b)\<rparr>)))"

definition update_dashboard ::
  "'c collaborators \<Rightarrow> string \<Rightarrow> DashboardUpdate
     \<Rightarrow> (error + DashboardResponse) \<times> 'c call list" where
  "update_dashboard B dashboard_id updates =
     (case validate_dashboard_id B dashboard_id of
        (Inl e, calls) \<Rightarrow> (Inl e, calls)
      | (Inr dashboard, calls) \<Rightarrow>
          (case apply_updates B dashboard updates of
             Inl e \<Rightarrow> (Inl e, calls)
           | Inr dashboard' \<Rightarrow>
               (let score_card = as_cached_score_card B dashboard' True;
                    formatted = format_score_card B score_card
                in (DashboardResponse_validate B formatted,
                    calls @ [save_call dashboard',
                             as_cached_score_card_call dashboard' True]))))"

text \<open>The definitions handed to \<^verbatim>\<open>save\<close> during a request, in order.\<close>

fun saved :: "'c call list \<Rightarrow> 'c ScoreDefinition list" where
  "saved [] = []"
| "saved (save_call d # calls) = d # saved calls"
| "saved (c # calls) = saved calls"

section \<open>Filter options\<close>

text \<open>The list \<^verbatim>\<open>categories\<close> of \<^verbatim>\<open>get_filter_field_values\<close>.\<close>

definition categories :: "string list" where
  "categories =
     [''table_groups_name'', ''data_location'', ''data_source'', ''source_system'',
      ''source_process'', ''business_domain'', ''stakeholder_group'', ''transform_level'',
      ''data_product'']"

text \<open>
  \<^verbatim>\<open>values[key].append(v)\<close> on a \<^verbatim>\<open>defaultdict(list)\<close>: a key seen before keeps its
  place and gets the value at the end of its list, a new key goes last.
\<close>

fun append_value ::
  "string \<Rightarrow> string \<Rightarrow> (string \<times> string list) list \<Rightarrow> (string \<times> string list) list" where
  "append_value key v [] = [(key, [v])]"
| "append_value key v ((k, vs) # rest) =
     (if k = key then (k, vs @ [v]) # rest else (k, vs) # append_value key v rest)"

text \<open>
  The loop \<^verbatim>\<open>for row in results: if row.category and row.value: ...\<close>; \<open>None\<close> and
  the empty string are the two falsy values a column can hold.
\<close>

fun group_values ::
  "category_value_row list \<Rightarrow> (string \<times> string list) list \<Rightarrow> (string \<times> string list) list" where
  "group_values [] vals = vals"
| "group_values (row # results) vals =
     group_values results
       (if truthy (row_category row) \<and> truthy (row_value row)
        then (case (row_category row, row_value row) of
                (Some c, Some v) \<Rightarrow> append_value c v vals
              | _ \<Rightarrow> vals)
        else vals)"

definition get_filter_field_values ::
  "'c collaborators \<Rightarrow> string \<Rightarrow> (string \<times> string list) list \<times> 'c call list" where
  "get_filter_field_values B project_code =
     (let results = fetch_category_values B project_code
      in (group_values results [],
          [fetch_all_from_db_call (category_values_query categories) project_code]))"

text \<open>
  \<^verbatim>\<open>ColumnHierarchy(**dict(row))\<close>: all six fields are declared \<^verbatim>\<open>str\<close>, so a NULL
  column makes the model refuse the row.
\<close>

definition ColumnHierarchy_of_row :: "column_row \<Rightarrow> error + ColumnHierarchy" where
  "ColumnHierarchy_of_row row =
     (case (row_column_id row, row_column_name row, row_table_id row,
            row_table_name row, row_table_group_id row, row_table_group_name row) of
        (Some cid, Some cname, Some tid, Some tname, Some gid, Some gname) \<Rightarrow>
          Inr \<lparr>ch_column_id = cid, ch_column_name = cname, ch_table_id = tid,
               ch_table_name = tname, ch_table_group_id = gid, ch_table_group_name = gname\<rparr>
      | _ \<Rightarrow> Inl ValidationError)"

definition get_column_hierarchy ::
  "'c collaborators \<Rightarrow> string \<Rightarrow> (error + ColumnHierarchy list) \<times> 'c call list" where
  "get_column_hierarchy B project_code =
     (let results = fetch_column_rows B project_code
      in (traverse ColumnHierarchy_of_row results,
          [fetch_all_from_db_call column_hierarchy_query project_code]))"

text \<open>The four literal tables of \<^verbatim>\<open>get_dashboard_filter_options\<close>.\<close>

definition filter_fields_metadata_table :: "(string \<times> string) list list" where
  "filter_fields_metadata_table =
     [[(''field'', ''table_groups_name''), (''label'', ''Table Group'')],
      [(''field'', ''data_location''), (''label'', ''Data Location'')],
      [(''field'', ''data_source''), (''label'', ''Data Source'')],
      [(''field'', ''source_system''), (''label'', ''Source System'')],
      [(''field'', ''source_process''), (''label'', ''Source Process'')],
      [(''field'', ''business_domain''), (''label'', ''Business Domain'')],
      [(''field'', ''stakeholder_group''), (''label'', ''Stakeholder Group'')],
      [(''field'', ''transform_level''), (''label'', ''Transform Level'')],
      [(''field'', ''data_product''), (''label'', ''Data Product'')]]"

definition category_options_table :: "(string \<times> string) list list" where
  "category_options_table =
     [[(''value'', ''table_groups_name''), (''label'', ''Table Group'')],
      [(''value'', ''data_location''), (''label'', ''Data Location'')],
      [(''value'', ''data_source''), (''label'', ''Data Source'')],
      [(''value'', ''source_system''), (''label'', ''Source System'')],
      [(''value'', ''source_process''), (''label'', ''Source Process'')],
      [(''value'', ''business_domain''), (''label'', ''Business Domain'')],
      [(''value'', ''stakeholder_group''), (''label'', ''Stakeholder Group'')],
      [(''value'', ''transform_level''), (''label'', ''Transform Level'')],
      [(''value'', ''dq_dimension''), (''label'', ''Quality Dimension'')],
      [(''value'', ''data_product''), (''label'', ''Data Product'')]]"

definition score_grouping_options_table :: "(string \<times> string) list list" where
  "score_grouping_options_table =
     [[(''value'', ''column_name''), (''label'', ''Column'')],
      [(''value'', ''table_name''), (''label'', ''Table'')],
      [(''value'', ''dq_dimension''), (''label'', ''Quality Dimension'')],
      [(''value'', ''semantic_data_type''), (''label'', ''Semantic Data Type'')],
      [(''value'', ''table_groups_name''), (''label'', ''Table Group'')],
      [(''value'', ''data_location''), (''label'', ''Data Location'')],
      [(''value'', ''data_source''), (''label'', ''Data Source'')],
      [(''value'', ''source_system''), (''label'', ''Source System'')],
      [(''value'', ''source_process''), (''label'', ''Source Process'')],
      [(''value'', ''business_domain''), (''label'', ''Business Domain'')],
      [(''value'', ''stakeholder_group''), (''label'', ''Stakeholder Group'')],
      [(''value'', ''transform_level''), (''label'', ''Transform Level'')],
      [(''value'', ''data_product''), (''label'', ''Data Product'')]]"

definition score_type_options_table :: "(string \<times> string) list list" where
  "score_type_options_table =
     [[(''value'', ''score''), (''label'', ''Total Score'')],
      [(''value'', ''cde_score''), (''label'', ''CDE Score'')]]"

definition get_dashboard_filter_options ::
  "'c collaborators \<Rightarrow> string \<Rightarrow> bool \<Rightarrow> bool \<Rightarrow> bool \<Rightarrow> bool \<Rightarrow> bool
     \<Rightarrow> (error + FilterOptions) \<times> 'c call list" where
  "get_dashboard_filter_options B project_code include_filter_values include_columns
       include_category_options include_score_grouping_options include_score_type_options =
     (case validate_project_code B project_code of
        (Inl e, calls) \<Rightarrow> (Inl e, calls)
      | (Inr u, calls) \<Rightarrow>
          (let filter_fields_metadata =
                 (if include_filter_values then filter_fields_metadata_table else []);
               (filter_values, calls1) =
                 (if include_filter_values then get_filter_field_values B project_code
                  else ([], []));
               (columns, calls2) =
                 (if include_columns then get_column_hierarchy B project_code
                  else (Inr [], []))
           in case columns of
                Inl e \<Rightarrow> (Inl e, calls @ calls1 @ calls2)
              | Inr columns \<Rightarrow>
                  (let category_options =
                         (if include_category_options then category_options_table else []);
                       score_grouping_options =
                         (if include_score_grouping_options then score_grouping_options_table
                          else []);
                       score_type_options =
                         (if include_score_type_options then score_type_options_table else [])
                   in (Inr \<lparr>fo_filter_fields_metadata = filter_fields_metadata,
                             fo_filter_values = filter_values,
                             fo_columns = columns,
                             fo_category_options = category_options,
                             fo_score_grouping_options = score_grouping_options,
                             fo_score_type_options = score_type_options\<rparr>,
                       calls @ calls1 @ calls2))))"

text \<open>The \<^verbatim>\<open>"value"\<close> entries of an option table.\<close>

definition option_values :: "(string \<times> string) list list \<Rightarrow> string option list" where
  "option_values table = map (\<lambda>d. map_of d ''value'') table"

text \<open>
  What the grouping is compared with: the values observed for one category, that is
  the non-empty values of the rows carrying that non-empty category, in row order.
\<close>

definition observed :: "category_value_row list \<Rightarrow> string \<Rightarrow> string list" where
  "observed results key =
     List.map_filter
       (\<lambda>row. case (row_category row, row_value row) of
                 (Some c, Some v) \<Rightarrow> if c = key \<and> c \<noteq> [] \<and> v \<noteq> [] then Some v else None
               | _ \<Rightarrow> None)
       results"

section \<open>A small concrete installation\<close>

text \<open>
  One project, \<^verbatim>\<open>DEFAULT\<close>, with one dashboard that has a recorded history; the
  criteria of this installation are the pair of the filter dictionaries and the flag.
  The fresh card has categories and no history, the cached card has a history and
  other scores.
\<close>

definition demo_dashboard :: "(pyval list \<times> bool) ScoreDefinition" where
  "demo_dashboard =
     \<lparr>sd_id = ''0f1e2d3c-0000-4000-8000-000000000001'',
      sd_project_code = ''DEFAULT'',
      sd_name = ''Sales'',
      sd_total_score = True,
      sd_cde_score = False,
      sd_category = Some (ScoreCategory ''dq_dimension'' ''dq_dimension''),
      sd_criteria = ([], True),
      sd_history = [PyDict [(''score'', PyFloat 0.5)]]\<rparr>"

definition demo_fresh_card :: "(pyval list \<times> bool) ScoreDefinition \<Rightarrow> pydict" where
  "demo_fresh_card d =
     [''id'' \<mapsto> PyStr (sd_id d), ''project_code'' \<mapsto> PyStr (sd_project_code d),
      ''name'' \<mapsto> PyStr (sd_name d), ''score'' \<mapsto> PyStr ''92.5'',
      ''categories'' \<mapsto> PyList [PyStr ''Accuracy''], ''history'' \<mapsto> PyList []]"

definition demo_cached_card :: "(pyval list \<times> bool) ScoreDefinition \<Rightarrow> bool \<Rightarrow> pydict" where
  "demo_cached_card d include_definition =
     [''id'' \<mapsto> PyStr (sd_id d), ''project_code'' \<mapsto> PyStr (sd_project_code d),
      ''name'' \<mapsto> PyStr (sd_name d), ''score'' \<mapsto> PyStr ''80.0'',
      ''categories'' \<mapsto> PyList [], ''history'' \<mapsto> PyList (sd_history d)]"

definition demo_format_score_card :: "pydict \<Rightarrow> pyval" where
  "demo_format_score_card score_card =
     PyDict (map (\<lambda>k. (k, dict_get score_card k PyNone))
               [''id'', ''project_code'', ''name'', ''score'', ''categories'', ''history''])"

definition demo_str :: "pyval option \<Rightarrow> string option" where
  "demo_str v = (case v of Some (PyStr s) \<Rightarrow> Some s | _ \<Rightarrow> None)"

definition demo_DashboardResponse :: "pyval \<Rightarrow> error + DashboardResponse" where
  "demo_DashboardResponse formatted =
     (case formatted of
        PyDict kvs \<Rightarrow>
          (case (demo_str (map_of kvs ''id''), demo_str (map_of kvs ''project_code''),
                 demo_str (map_of kvs ''name''), map_of kvs ''categories'',
                 map_of kvs ''history'') of
             (Some i, Some p, Some n, Some (PyList cs), Some (PyList hs)) \<Rightarrow>
               Inr \<lparr>resp_id = i, resp_project_code = p, resp_name = n,
                    resp_score = demo_str (map_of kvs ''score''),
                    resp_cde_score = None, resp_profiling_score = None,
                    resp_testing_score = None, resp_categories_label = None,
                    resp_categories =
                      map (\<lambda>c. \<lparr>cs_label = (case c of PyStr l \<Rightarrow> l | _ \<Rightarrow> []),
                                cs_score = None\<rparr>) cs,
                    resp_history =
                      map (\<lambda>h. \<lparr>he_score = (case h of PyDict [(k, PyFloat x)] \<Rightarrow> x | _ \<Rightarrow> 0),
                                he_category = ''score'', he_time = []\<rparr>) hs\<rparr>
           | _ \<Rightarrow> Inl ValidationError)
      | _ \<Rightarrow> Inl ValidationError)"

definition demo :: "(pyval list \<times> bool) collaborators" where
  "demo =
     \<lparr>Project_exists = (\<lambda>project_code. project_code = ''DEFAULT''),
      UUID_parses = (\<lambda>dashboard_id. length dashboard_id = 36),
      ScoreDefinition_get =
        (\<lambda>dashboard_id. if dashboard_id = sd_id demo_dashboard then Some demo_dashboard
                         else None),
      ScoreDefinition_all = (\<lambda>project_code name_filter sorted_by n. [demo_dashboard]),
      ScoreCategory_getitem =
        (\<lambda>n. if n \<in> set (''dq_dimension'' # categories) then Some (ScoreCategory n n)
              else None),
      ScoreDefinitionCriteria_from_filters = Pair,
      as_score_card = demo_fresh_card,
      as_cached_score_card = demo_cached_card,
      get_score_card_breakdown = (\<lambda>d score_type group_by. PyList [PyStr group_by]),
      get_score_card_issues = (\<lambda>d score_type group_by v. PyList [PyStr group_by, PyStr v]),
      format_score_card = demo_format_score_card,
      format_score_card_breakdown =
        (\<lambda>v group_by. case v of PyList items \<Rightarrow> items | _ \<Rightarrow> []),
      format_score_card_issues =
        (\<lambda>v group_by. case v of PyList items \<Rightarrow> items | _ \<Rightarrow> []),
      DashboardResponse_validate = demo_DashboardResponse,
      BreakdownItem_validate = Inr,
      IssueItem_validate = Inr,
      format_GroupByCategory = GroupByCategory_value,
      fetch_category_values =
        (\<lambda>project_code.
           [\<lparr>row_category = Some ''data_source'', row_value = Some ''alpha''\<rparr>,
            \<lparr>row_category = Some ''data_location'', row_value = Some []\<rparr>,
            \<lparr>row_category = Some ''business_domain'', row_value = Some ''finance''\<rparr>,
            \<lparr>row_category = None, row_value = Some ''orphan''\<rparr>,
            \<lparr>row_category = Some ''data_source'', row_value = Some ''Beta''\<rparr>]),
      fetch_column_rows =
        (\<lambda>project_code.
           [\<lparr>row_column_id = Some ''c1'', row_column_name = Some ''amount'',
             row_table_id = Some ''t1'', row_table_name = Some ''orders'',
             row_table_group_id = Some ''g1'', row_table_group_name = Some ''core''\<rparr>])\<rparr>"

definition demo_update :: DashboardUpdate where
  "demo_update =
     \<lparr>upd_name = Some ''Sales 2'', upd_total_score = Some False, upd_cde_score = Some True,
      upd_category = Some ''data_source'', upd_filters = None,
      upd_group_by_field = Some False\<rparr>"

definition demo_filter :: DashboardFilterCreate where
  "demo_filter =
     \<lparr>f_field = ''data_source'', f_value = ''alpha'',
      f_others = [[(''field'', ''data_location''), (''value'', ''eu'')]]\<rparr>"

section \<open>The vocabulary and its aliases\<close>

lemmas string_ops =
  alias_key_def strip_def replace_char_def lower_def lower_char_def upper_letters_def
  lower_letters_def isspace_def group_by_mapping_def

lemma alias_key_value_not_alias:
  "alias_key (GroupByCategory_value g) \<notin> fst ` set group_by_mapping"
  by (cases g; simp add: string_ops)

lemma normalize_group_by_value:
  "normalize_group_by (GroupByCategory_value g) = GroupByCategory_value g"
  by (cases g; simp add: normalize_group_by_def dict_get_def string_ops)

lemma value_in_valid_categories: "GroupByCategory_value g \<in> set valid_categories"
  by (cases g; simp add: valid_categories_def)

lemma GroupByCategory_of_value_value:
  "GroupByCategory_of_value (GroupByCategory_value g) = Some g"
  by (cases g; simp add: GroupByCategory_of_value_def GroupByCategory_members_def)

lemma GroupByCategory_of_value_Some:
  "GroupByCategory_of_value token = Some g \<Longrightarrow> GroupByCategory_value g = token"
  unfolding GroupByCategory_of_value_def by (auto dest: find_Some_iff[THEN iffD1])

lemma valid_categories_are_values:
  "valid_categories = map GroupByCategory_value GroupByCategory_members"
  by (simp add: valid_categories_def GroupByCategory_members_def)

lemma GroupByCategory_of_value_None_iff:
  "GroupByCategory_of_value token = None \<longleftrightarrow> token \<notin> set valid_categories"
  unfolding GroupByCategory_of_value_def valid_categories_are_values find_None_iff by auto

lemma category_option_values:
  "set (option_values category_options_table) =
     Some ` (set valid_categories - {''column_name'', ''table_name'', ''semantic_data_type''})"
  unfolding option_values_def category_options_table_def valid_categories_def
  by (simp add: insert_Diff_if insert_commute)

lemma option_tables_values:
  "option_values score_grouping_options_table = map Some valid_categories
   \<and> valid_categories = map GroupByCategory_value GroupByCategory_members
   \<and> valid_categories =
       [''column_name'', ''table_name'', ''dq_dimension'', ''semantic_data_type'',
        ''table_groups_name'', ''data_location'', ''data_source'', ''source_system'',
        ''source_process'', ''business_domain'', ''stakeholder_group'',
        ''transform_level'', ''data_product'']
   \<and> length score_grouping_options_table = 13
   \<and> distinct (option_values score_grouping_options_table)
   \<and> distinct (option_values category_options_table)
   \<and> set (option_values category_options_table) =
       Some ` (set valid_categories - {''column_name'', ''table_name'', ''semantic_data_type''})"
proof -
  have "option_values score_grouping_options_table = map Some valid_categories"
    by (simp add: option_values_def score_grouping_options_table_def valid_categories_def)
  moreover have "length score_grouping_options_table = 13"
    by (simp add: score_grouping_options_table_def)
  moreover have "distinct (option_values score_grouping_options_table)"
    by (simp add: option_values_def score_grouping_options_table_def)
  moreover have "distinct (option_values category_options_table)"
    by (simp add: option_values_def category_options_table_def)
  moreover have "valid_categories =
       [''column_name'', ''table_name'', ''dq_dimension'', ''semantic_data_type'',
        ''table_groups_name'', ''data_location'', ''data_source'', ''source_system'',
        ''source_process'', ''business_domain'', ''stakeholder_group'',
        ''transform_level'', ''data_product'']"
    by (simp add: valid_categories_def)
  ultimately show ?thesis
    using valid_categories_are_values category_option_values by blast
qed

section \<open>The group-by parameter of breakdown and issues\<close>

lemma get_dashboard_breakdown_member:
  "get_dashboard_breakdown B dashboard_id score_type g =
     (case validate_dashboard_id B dashboard_id of
        (Inl e, calls) \<Rightarrow> (Inl e, calls)
      | (Inr dashboard, calls) \<Rightarrow>
          (traverse (BreakdownItem_validate B)
             (format_score_card_breakdown B
                (get_score_card_breakdown B dashboard score_type (GroupByCategory_value g))
                (GroupByCategory_value g)),
           calls @ [get_score_card_breakdown_call dashboard score_type
                      (GroupByCategory_value g)]))"
  by (simp add: get_dashboard_breakdown_def Let_def normalize_group_by_value
      value_in_valid_categories split: prod.splits sum.splits)

lemma get_dashboard_issues_member:
  "get_dashboard_issues B dashboard_id score_type g val =
     (case validate_dashboard_id B dashboard_id of
        (Inl e, calls) \<Rightarrow> (Inl e, calls)
      | (Inr dashboard, calls) \<Rightarrow>
          (traverse (IssueItem_validate B)
             (format_score_card_issues B
                (get_score_card_issues B dashboard score_type (GroupByCategory_value g) val)
                (GroupByCategory_value g)),
           calls @ [get_score_card_issues_call dashboard score_type
                      (GroupByCategory_value g) val]))"
  by (simp add: get_dashboard_issues_def Let_def normalize_group_by_value
      value_in_valid_categories split: prod.splits sum.splits)

text \<open>
  C1.  The alias step of the handlers does resolve \<^verbatim>\<open>table_group\<close>: lower-cased,
  with underscores turned into blanks and trimmed it is \<^verbatim>\<open>table group\<close>, a key of
  the alias dictionary, and the result \<^verbatim>\<open>table_groups_name\<close> is a valid category.
  But \<^verbatim>\<open>table_group\<close> is no value of the enumeration the routes declare for
  \<^verbatim>\<open>group_by\<close>, so for every installation and every dashboard id a breakdown or
  issues request with \<^verbatim>\<open>group_by=table_group\<close> is refused by request validation
  with status 422, naming \<^verbatim>\<open>group_by\<close>, before the handler runs and without any
  call to the store or the engine.  The misspelt \<^verbatim>\<open>semantic_data_typo\<close> is refused
  the same way, with 422 and not with the handler's 400.
\<close>

theorem table_group_alias_refused_by_route:
  "alias_key ''table_group'' = ''table group''
   \<and> normalize_group_by ''table_group'' = ''table_groups_name''
   \<and> ''table_groups_name'' \<in> set valid_categories
   \<and> GroupByCategory_of_value ''table_group'' = None
   \<and> breakdown_route B dashboard_id (Some ''score'') (Some ''table_group'')
       = (Inl (RequestValidationError [''group_by'']), [])
   \<and> breakdown_route B dashboard_id (Some ''cde_score'') (Some ''table_group'')
       = (Inl (RequestValidationError [''group_by'']), [])
   \<and> issues_route B dashboard_id (Some ''score'') (Some ''table_group'') (Some v)
       = (Inl (RequestValidationError [''group_by'']), [])
   \<and> breakdown_route B dashboard_id (Some ''score'') (Some ''semantic_data_typo'')
       = (Inl (RequestValidationError [''group_by'']), [])
   \<and> status_code (RequestValidationError [''group_by'']) = 422"
proof -
  have k: "alias_key ''table_group'' = ''table group''"
    by (simp add: string_ops)
  have n: "normalize_group_by ''table_group'' = ''table_groups_name''"
    by (simp add: normalize_group_by_def dict_get_def k) (simp add: group_by_mapping_def)
  have m: "''table_groups_name'' \<in> set valid_categories"
    by (simp add: valid_categories_def)
  have g: "GroupByCategory_of_value ''table_group'' = None"
    by (simp add: GroupByCategory_of_value_None_iff valid_categories_def)
  have g': "GroupByCategory_of_value ''semantic_data_typo'' = None"
    by (simp add: GroupByCategory_of_value_None_iff valid_categories_def)
  have b: "breakdown_route B dashboard_id (Some ''score'') (Some ''table_group'')
             = (Inl (RequestValidationError [''group_by'']), [])"
    by (simp add: breakdown_route_def query_Literal_def query_GroupByCategory_def g)
  have c: "breakdown_route B dashboard_id (Some ''cde_score'') (Some ''table_group'')
             = (Inl (RequestValidationError [''group_by'']), [])"
    by (simp add: breakdown_route_def query_Literal_def query_GroupByCategory_def g)
  have i: "issues_route B dashboard_id (Some ''score'') (Some ''table_group'') (Some v)
             = (Inl (RequestValidationError [''group_by'']), [])"
    by (simp add: issues_route_def query_Literal_def query_GroupByCategory_def query_str_def g)
  have t: "breakdown_route B dashboard_id (Some ''score'') (Some ''semantic_data_typo'')
             = (Inl (RequestValidationError [''group_by'']), [])"
    by (simp add: breakdown_route_def query_Literal_def query_GroupByCategory_def g')
  from k n m g b c i t show ?thesis by simp
qed

text \<open>
  C9.  For every member of the enumeration, the lower-cased, underscore-to-blank,
  trimmed form of its value is no key of the alias dictionary, the alias step returns
  the value unchanged, and the value is in the handlers' list of valid categories.
  Hence both handlers behave exactly as if the invalid-category branch were not
  there: after the dashboard lookup they call the engine with the member's value.
\<close>

theorem enum_members_never_reach_invalid_branch:
  "alias_key (GroupByCategory_value g) \<notin> fst ` set group_by_mapping
   \<and> normalize_group_by (GroupByCategory_value g) = GroupByCategory_value g
   \<and> GroupByCategory_value g \<in> set valid_categories
   \<and> get_dashboard_breakdown B dashboard_id score_type g =
       (case validate_dashboard_id B dashboard_id of
          (Inl e, calls) \<Rightarrow> (Inl e, calls)
        | (Inr dashboard, calls) \<Rightarrow>
            (traverse (BreakdownItem_validate B)
               (format_score_card_breakdown B
                  (get_score_card_breakdown B dashboard score_type (GroupByCategory_value g))
                  (GroupByCategory_value g)),
             calls @ [get_score_card_breakdown_call dashboard score_type
                        (GroupByCategory_value g)]))
   \<and> get_dashboard_issues B dashboard_id score_type g val =
       (case validate_dashboard_id B dashboard_id of
          (Inl e, calls) \<Rightarrow> (Inl e, calls)
        | (Inr dashboard, calls) \<Rightarrow>
            (traverse (IssueItem_validate B)
               (format_score_card_issues B
                  (get_score_card_issues B dashboard score_type (GroupByCategory_value g) val)
                  (GroupByCategory_value g)),
             calls @ [get_score_card_issues_call dashboard score_type
                        (GroupByCategory_value g) val]))"
  using alias_key_value_not_alias normalize_group_by_value value_in_valid_categories
    get_dashboard_breakdown_member get_dashboard_issues_member by blast

section \<open>Listing dashboards: summaries and the history merge\<close>

lemma list_summary_found:
  assumes "\<forall>pc. project_code = Some pc \<and> pc \<noteq> [] \<longrightarrow> Project_exists B pc"
  shows "list_dashboards B project_code name_filter sorted_by False False =
           (Inr (map summary (ScoreDefinition_all B project_code name_filter sorted_by 0)),
            (case project_code of
               Some pc \<Rightarrow> if pc \<noteq> [] then [Project_query pc] else []
             | None \<Rightarrow> [])
            @ [ScoreDefinition_all_call project_code name_filter sorted_by 0])"
  using assms
  by (cases project_code)
     (auto simp add: list_dashboards_def validate_project_code_def Let_def)

lemma list_summary_missing:
  assumes "project_code = Some pc" and "pc \<noteq> []" and "\<not> Project_exists B pc"
  shows "list_dashboards B project_code name_filter sorted_by include_scores include_history =
           (Inl (HTTPException 404 (''Project '' @ quote pc @ '' not found'')),
            [Project_query pc])"
  using assms by (simp add: list_dashboards_def validate_project_code_def)

lemma summary_fields:
  "resp_score (summary d) = None \<and> resp_cde_score (summary d) = None
   \<and> resp_profiling_score (summary d) = None \<and> resp_testing_score (summary d) = None
   \<and> resp_categories (summary d) = [] \<and> resp_history (summary d) = []"
  by (simp add: summary_def)

text \<open>
  C5.  A list request with \<^verbatim>\<open>include_scores\<close> and \<^verbatim>\<open>include_history\<close> both false
  makes no fresh-card and no cached-card call; when it returns, it returns one
  summary per definition of the store, each with score, cde_score, profiling_score
  and testing_score null and with empty categories and history; and it does return
  unless a non-empty project code names a project that does not exist.
\<close>

theorem list_summary_without_engine:
  "(\<forall>c \<in> set (snd (list_dashboards B project_code name_filter sorted_by False False)).
      \<not> is_score_card_call c)
   \<and> (\<forall>items. fst (list_dashboards B project_code name_filter sorted_by False False)
                 = Inr items
        \<longrightarrow> items = map summary (ScoreDefinition_all B project_code name_filter sorted_by 0)
          \<and> (\<forall>item \<in> set items.
               resp_score item = None \<and> resp_cde_score item = None
               \<and> resp_profiling_score item = None \<and> resp_testing_score item = None
               \<and> resp_categories item = [] \<and> resp_history item = []))
   \<and> ((\<forall>pc. project_code = Some pc \<and> pc \<noteq> [] \<longrightarrow> Project_exists B pc)
        \<longrightarrow> (\<exists>items. fst (list_dashboards B project_code name_filter sorted_by False False)
                       = Inr items))"
proof (cases "\<forall>pc. project_code = Some pc \<and> pc \<noteq> [] \<longrightarrow> Project_exists B pc")
  case True
  show ?thesis
    unfolding list_summary_found[OF True]
    using summary_fields by (auto split: option.splits)
next
  case False
  then obtain pc where pc: "project_code = Some pc" "pc \<noteq> []" "\<not> Project_exists B pc"
    by blast
  show ?thesis
    unfolding list_summary_missing[OF pc] using pc by auto
qed

lemma demo_list_summary:
  "list_dashboards demo (Some ''DEFAULT'') None ''name'' False False =
     (Inr [\<lparr>resp_id = ''0f1e2d3c-0000-4000-8000-000000000001'',
            resp_project_code = ''DEFAULT'', resp_name = ''Sales'',
            resp_score = None, resp_cde_score = None, resp_profiling_score = None,
            resp_testing_score = None, resp_categories_label = Some ''dq_dimension'',
            resp_categories = [], resp_history = []\<rparr>],
      [Project_query ''DEFAULT'',
       ScoreDefinition_all_call (Some ''DEFAULT'') None ''name'' 0])"
proof -
  have "\<forall>pc. Some ''DEFAULT'' = Some pc \<and> pc \<noteq> [] \<longrightarrow> Project_exists demo pc"
    by (simp add: demo_def)
  from list_summary_found[OF this] show ?thesis
    by (simp add: demo_def summary_def demo_dashboard_def)
qed

theorem list_summary_without_engine_witness:
  "fst (list_dashboards demo (Some ''DEFAULT'') None ''name'' False False) =
     Inr [\<lparr>resp_id = ''0f1e2d3c-0000-4000-8000-000000000001'',
           resp_project_code = ''DEFAULT'', resp_name = ''Sales'',
           resp_score = None, resp_cde_score = None, resp_profiling_score = None,
           resp_testing_score = None, resp_categories_label = Some ''dq_dimension'',
           resp_categories = [], resp_history = []\<rparr>]
   \<and> snd (list_dashboards demo (Some ''DEFAULT'') None ''name'' False False) =
       [Project_query ''DEFAULT'',
        ScoreDefinition_all_call (Some ''DEFAULT'') None ''name'' 0]
   \<and> Project_exists demo ''DEFAULT''
   \<and> \<not> is_score_card_call (Project_query ''DEFAULT'' :: (pyval list \<times> bool) call)
   \<and> \<not> is_score_card_call
         (ScoreDefinition_all_call (Some ''DEFAULT'') None ''name'' 0
            :: (pyval list \<times> bool) call)"
  using list_summary_without_engine[of demo "Some ''DEFAULT''" None "''name''"]
  by (simp add: demo_list_summary) (simp add: demo_def)

lemma full_details_Inr:
  "fst (full_details B h ds) = Inr rs \<Longrightarrow>
     map Inr rs =
       map (\<lambda>d. DashboardResponse_validate B
                  (format_score_card B (fst (score_card_of B h d)))) ds"
proof (induction ds arbitrary: rs)
  case Nil
  then show ?case by simp
next
  case (Cons d ds)
  then show ?case
    by (auto simp add: Let_def split: prod.splits sum.splits)
qed

lemma list_full_details:
  "fst (list_dashboards B project_code name_filter sorted_by True True) = Inr rs \<Longrightarrow>
   fst (full_details B True (ScoreDefinition_all B project_code name_filter sorted_by 50))
     = Inr rs"
  by (auto simp add: list_dashboards_def Let_def
      split: prod.splits sum.splits option.splits if_splits)

lemma score_card_of_history:
  "sd_history d \<noteq> [] \<Longrightarrow>
   score_card_of B True d =
     ((as_score_card B d)
        (''history'' \<mapsto> dict_get (as_cached_score_card B d False) ''history'' (PyList [])),
      [as_score_card_call d, as_cached_score_card_call d False])"
  by (simp add: score_card_of_def Let_def)

text \<open>
  C2.  In a list request with \<^verbatim>\<open>include_scores\<close> and \<^verbatim>\<open>include_history\<close> both
  true that returns, for every definition of the store that has history: exactly one
  fresh card and one cached card (without definition) are computed; the score card
  handed to the formatter has, under \<^verbatim>\<open>"history"\<close>, the history entry of the cached
  card (the empty list when the cached card has none) and, under every other key,
  exactly what the fresh card has there; and the response built from that card is
  among the returned items, of which there is one per definition.
\<close>

theorem list_merges_only_history_from_cached:
  assumes "fst (list_dashboards B project_code name_filter sorted_by True True) = Inr rs"
      and "d \<in> set (ScoreDefinition_all B project_code name_filter sorted_by 50)"
      and "sd_history d \<noteq> []"
  shows "\<exists>score_card r.
           fst (score_card_of B True d) = score_card
         \<and> score_card ''history'' =
             Some (dict_get (as_cached_score_card B d False) ''history'' (PyList []))
         \<and> (\<forall>k. k \<noteq> ''history'' \<longrightarrow> score_card k = as_score_card B d k)
         \<and> snd (score_card_of B True d) =
             [as_score_card_call d, as_cached_score_card_call d False]
         \<and> DashboardResponse_validate B (format_score_card B score_card) = Inr r
         \<and> r \<in> set rs
         \<and> length rs = length (ScoreDefinition_all B project_code name_filter sorted_by 50)"
proof -
  let ?ds = "ScoreDefinition_all B project_code name_filter sorted_by 50"
  let ?f = "\<lambda>d. DashboardResponse_validate B
                  (format_score_card B (fst (score_card_of B True d)))"
  have m: "map Inr rs = map ?f ?ds"
    using full_details_Inr[OF list_full_details[OF assms(1)]] .
  then have len: "length rs = length ?ds" by (metis length_map)
  from assms(2) have "?f d \<in> set (map ?f ?ds)" by simp
  with m have "?f d \<in> Inr ` set rs" by (metis set_map)
  then obtain r where r: "?f d = Inr r" "r \<in> set rs" by auto
  show ?thesis
    using r len by (simp add: score_card_of_history[OF assms(3)])
qed

lemma demo_list_full:
  "list_dashboards demo (Some ''DEFAULT'') None ''name'' True True =
     (Inr [\<lparr>resp_id = ''0f1e2d3c-0000-4000-8000-000000000001'',
            resp_project_code = ''DEFAULT'', resp_name = ''Sales'',
            resp_score = Some ''92.5'', resp_cde_score = None, resp_profiling_score = None,
            resp_testing_score = None, resp_categories_label = None,
            resp_categories = [\<lparr>cs_label = ''Accuracy'', cs_score = None\<rparr>],
            resp_history = [\<lparr>he_score = 0.5, he_category = ''score'', he_time = []\<rparr>]\<rparr>],
      [Project_query ''DEFAULT'',
       ScoreDefinition_all_call (Some ''DEFAULT'') None ''name'' 50,
       as_score_card_call demo_dashboard, as_cached_score_card_call demo_dashboard False])"
  by (simp add: list_dashboards_def validate_project_code_def demo_def Let_def
      score_card_of_def demo_dashboard_def demo_fresh_card_def demo_cached_card_def
      demo_format_score_card_def demo_DashboardResponse_def demo_str_def dict_get_def)

theorem list_merges_only_history_from_cached_witness:
  "fst (list_dashboards demo (Some ''DEFAULT'') None ''name'' True True) =
     Inr [\<lparr>resp_id = ''0f1e2d3c-0000-4000-8000-000000000001'',
           resp_project_code = ''DEFAULT'', resp_name = ''Sales'',
           resp_score = Some ''92.5'', resp_cde_score = None, resp_profiling_score = None,
           resp_testing_score = None, resp_categories_label = None,
           resp_categories = [\<lparr>cs_label = ''Accuracy'', cs_score = None\<rparr>],
           resp_history = [\<lparr>he_score = 0.5, he_category = ''score'', he_time = []\<rparr>]\<rparr>]
   \<and> demo_dashboard \<in> set (ScoreDefinition_all demo (Some ''DEFAULT'') None ''name'' 50)
   \<and> sd_history demo_dashboard \<noteq> []
   \<and> fst (score_card_of demo True demo_dashboard) ''history''
       = Some (PyList [PyDict [(''score'', PyFloat 0.5)]])
   \<and> fst (score_card_of demo True demo_dashboard) ''score'' = Some (PyStr ''92.5'')
   \<and> as_score_card demo demo_dashboard ''score'' = Some (PyStr ''92.5'')
   \<and> as_cached_score_card demo demo_dashboard False ''score'' = Some (PyStr ''80.0'')
   \<and> fst (score_card_of demo True demo_dashboard) ''categories''
       = Some (PyList [PyStr ''Accuracy''])"
proof -
  have h1: "fst (list_dashboards demo (Some ''DEFAULT'') None ''name'' True True) =
     Inr [\<lparr>resp_id = ''0f1e2d3c-0000-4000-8000-000000000001'',
           resp_project_code = ''DEFAULT'', resp_name = ''Sales'',
           resp_score = Some ''92.5'', resp_cde_score = None, resp_profiling_score = None,
           resp_testing_score = None, resp_categories_label = None,
           resp_categories = [\<lparr>cs_label = ''Accuracy'', cs_score = None\<rparr>],
           resp_history = [\<lparr>he_score = 0.5, he_category = ''score'', he_time = []\<rparr>]\<rparr>]"
    by (simp add: demo_list_full)
  have h2: "demo_dashboard \<in> set (ScoreDefinition_all demo (Some ''DEFAULT'') None ''name'' 50)"
    by (simp add: demo_def)
  have h3: "sd_history demo_dashboard \<noteq> []"
    by (simp add: demo_dashboard_def)
  have fresh: "as_score_card demo demo_dashboard ''score'' = Some (PyStr ''92.5'')
     \<and> as_score_card demo demo_dashboard ''categories'' = Some (PyList [PyStr ''Accuracy''])"
    by (simp add: demo_def demo_fresh_card_def)
  have cached: "as_cached_score_card demo demo_dashboard False ''score'' = Some (PyStr ''80.0'')
     \<and> dict_get (as_cached_score_card demo demo_dashboard False) ''history'' (PyList [])
         = PyList [PyDict [(''score'', PyFloat 0.5)]]"
    by (simp add: demo_def demo_cached_card_def dict_get_def demo_dashboard_def)
  show ?thesis
    using h1 h2 h3 fresh cached
      list_merges_only_history_from_cached[OF h1 h2 h3]
    by auto
qed

section \<open>Updating a dashboard: criteria\<close>

lemma validate_dashboard_id_Inr:
  "validate_dashboard_id B dashboard_id = (Inr dashboard, calls) \<Longrightarrow>
     calls = [ScoreDefinition_get_call dashboard_id]
     \<and> ScoreDefinition_get B dashboard_id = Some dashboard"
  by (auto simp add: validate_dashboard_id_def split: if_splits option.splits)

lemma apply_updates_criteria:
  "apply_updates B dashboard updates = Inr d' \<Longrightarrow>
     sd_criteria d' =
       (case upd_filters updates of
          None \<Rightarrow> sd_criteria dashboard
        | Some fs \<Rightarrow>
            ScoreDefinitionCriteria_from_filters B (map filter_data fs)
              (case upd_group_by_field updates of None \<Rightarrow> True | Some b \<Rightarrow> b))"
  by (auto simp add: apply_updates_def Let_def split: option.splits sum.splits)

lemma apply_updates_succeeds:
  "(\<forall>c. upd_category updates = Some c \<longrightarrow> ScoreCategory_getitem B c \<noteq> None) \<Longrightarrow>
     \<exists>d'. apply_updates B dashboard updates = Inr d'"
  by (auto simp add: apply_updates_def Let_def split: option.splits sum.splits)

lemma update_dashboard_saved:
  "saved (snd (update_dashboard B dashboard_id updates)) =
     (case validate_dashboard_id B dashboard_id of
        (Inl e, calls) \<Rightarrow> []
      | (Inr dashboard, calls) \<Rightarrow>
          (case apply_updates B dashboard updates of Inl e \<Rightarrow> [] | Inr d' \<Rightarrow> [d']))"
  by (auto simp add: update_dashboard_def Let_def dest: validate_dashboard_id_Inr
      split: prod.splits sum.splits)
     (auto simp add: validate_dashboard_id_def split: if_splits option.splits)

lemma demo_validate_dashboard_id:
  "validate_dashboard_id demo ''0f1e2d3c-0000-4000-8000-000000000001'' =
     (Inr demo_dashboard, [ScoreDefinition_get_call ''0f1e2d3c-0000-4000-8000-000000000001''])"
  by (simp add: validate_dashboard_id_def demo_def demo_dashboard_def)

text \<open>
  C3.  When the body of an update request contains a filters value (the empty list
  included), the dashboard exists and the category, if one is supplied, is a member
  of the engine's enumeration, then exactly one definition is saved, and its criteria
  are what \<^verbatim>\<open>ScoreDefinitionCriteria.from_filters\<close> builds from one dictionary per
  filter of the body, in the body's order, each with exactly the keys \<^verbatim>\<open>field\<close>,
  \<^verbatim>\<open>value\<close> and \<^verbatim>\<open>others\<close> holding that filter's field, value and linked
  filters, together with the body's \<^verbatim>\<open>group_by_field\<close>, or with \<^verbatim>\<open>True\<close> when
  the body has none.
\<close>

theorem update_with_filters_rebuilds_criteria:
  assumes "upd_filters updates = Some fs"
      and "validate_dashboard_id B dashboard_id = (Inr dashboard, calls)"
      and "\<forall>c. upd_category updates = Some c \<longrightarrow> ScoreCategory_getitem B c \<noteq> None"
  shows "\<exists>d' filters_data.
         apply_updates B dashboard updates = Inr d'
       \<and> saved (snd (update_dashboard B dashboard_id updates)) = [d']
       \<and> sd_criteria d' =
           ScoreDefinitionCriteria_from_filters B filters_data
             (case upd_group_by_field updates of None \<Rightarrow> True | Some b \<Rightarrow> b)
       \<and> (upd_group_by_field updates = None \<longrightarrow>
            sd_criteria d' = ScoreDefinitionCriteria_from_filters B filters_data True)
       \<and> length filters_data = length fs
       \<and> (\<forall>i < length fs.
            filters_data ! i =
              PyDict [(''field'', PyStr (f_field (fs ! i))),
                      (''value'', PyStr (f_value (fs ! i))),
                      (''others'',
                       PyList (map (\<lambda>other. PyDict (map (\<lambda>(k, v). (k, PyStr v)) other))
                                 (f_others (fs ! i))))])"
proof -
  obtain d' where d': "apply_updates B dashboard updates = Inr d'"
    using apply_updates_succeeds[OF assms(3)] by blast
  have s: "saved (snd (update_dashboard B dashboard_id updates)) = [d']"
    by (simp add: update_dashboard_saved assms(2) d')
  have c: "sd_criteria d' =
           ScoreDefinitionCriteria_from_filters B (map filter_data fs)
             (case upd_group_by_field updates of None \<Rightarrow> True | Some b \<Rightarrow> b)"
    using apply_updates_criteria[OF d'] assms(1) by simp
  have e: "\<forall>i < length fs.
            map filter_data fs ! i =
              PyDict [(''field'', PyStr (f_field (fs ! i))),
                      (''value'', PyStr (f_value (fs ! i))),
                      (''others'',
                       PyList (map (\<lambda>other. PyDict (map (\<lambda>(k, v). (k, PyStr v)) other))
                                 (f_others (fs ! i))))]"
    by (simp add: filter_data_def)
  show ?thesis
    using d' s c e
    by (intro exI[of _ d'] exI[of _ "map filter_data fs"]) simp
qed

theorem update_with_filters_rebuilds_criteria_witness:
  "upd_filters (demo_update\<lparr>upd_filters := Some [demo_filter], upd_group_by_field := None\<rparr>)
     = Some [demo_filter]
   \<and> validate_dashboard_id demo ''0f1e2d3c-0000-4000-8000-000000000001'' =
        (Inr demo_dashboard,
         [ScoreDefinition_get_call ''0f1e2d3c-0000-4000-8000-000000000001''])
   \<and> ScoreCategory_getitem demo ''data_source'' \<noteq> None
   \<and> (0::nat) < length [demo_filter]
   \<and> (\<exists>d'. saved (snd (update_dashboard demo ''0f1e2d3c-0000-4000-8000-000000000001''
                (demo_update\<lparr>upd_filters := Some [demo_filter],
                   upd_group_by_field := None\<rparr>))) = [d']
        \<and> sd_criteria d' =
            ([PyDict [(''field'', PyStr ''data_source''), (''value'', PyStr ''alpha''),
                      (''others'',
                       PyList [PyDict [(''field'', PyStr ''data_location''),
                                       (''value'', PyStr ''eu'')]])]],
             True))"
proof -
  let ?u = "demo_update\<lparr>upd_filters := Some [demo_filter], upd_group_by_field := None\<rparr>"
  have h1: "upd_filters ?u = Some [demo_filter]" by simp
  have h3: "\<forall>c. upd_category ?u = Some c \<longrightarrow> ScoreCategory_getitem demo c \<noteq> None"
    by (simp add: demo_update_def demo_def categories_def)
  have h4: "ScoreCategory_getitem demo ''data_source'' \<noteq> None"
    by (simp add: demo_def categories_def)
  have p: "ScoreDefinitionCriteria_from_filters demo = Pair"
    by (simp add: demo_def)
  obtain d' filters_data where
    s: "saved (snd (update_dashboard demo ''0f1e2d3c-0000-4000-8000-000000000001'' ?u)) = [d']"
    and c: "sd_criteria d' = ScoreDefinitionCriteria_from_filters demo filters_data True"
    and l: "length filters_data = length [demo_filter]"
    and e: "\<forall>i < length [demo_filter].
              filters_data ! i =
                PyDict [(''field'', PyStr (f_field ([demo_filter] ! i))),
                        (''value'', PyStr (f_value ([demo_filter] ! i))),
                        (''others'',
                         PyList (map (\<lambda>other. PyDict (map (\<lambda>(k, v). (k, PyStr v)) other))
                                   (f_others ([demo_filter] ! i))))]"
    using update_with_filters_rebuilds_criteria[OF h1 demo_validate_dashboard_id h3]
    by auto
  from l obtain x where x: "filters_data = [x]"
    by (cases filters_data) auto
  from e x have "x = PyDict [(''field'', PyStr ''data_source''), (''value'', PyStr ''alpha''),
                      (''others'',
                       PyList [PyDict [(''field'', PyStr ''data_location''),
                                       (''value'', PyStr ''eu'')]])]"
    by (simp add: demo_filter_def)
  with x c p have "sd_criteria d' =
            ([PyDict [(''field'', PyStr ''data_source''), (''value'', PyStr ''alpha''),
                      (''others'',
                       PyList [PyDict [(''field'', PyStr ''data_location''),
                                       (''value'', PyStr ''eu'')]])]],
             True)"
    by simp
  with s h1 h4 demo_validate_dashboard_id show ?thesis by auto
qed

text \<open>
  C4.  When the body of an update request has no filters value, every definition
  the request saves has the criteria of the definition the store holds for the id,
  and the mutation of the loaded object leaves its criteria as they were, whatever
  the body says about name, total_score, cde_score, category and group_by_field.
\<close>

theorem update_without_filters_keeps_criteria:
  assumes "upd_filters updates = None"
  shows "(\<forall>d' \<in> set (saved (snd (update_dashboard B dashboard_id updates))).
            \<exists>dashboard. ScoreDefinition_get B dashboard_id = Some dashboard
                       \<and> sd_criteria d' = sd_criteria dashboard)
       \<and> (\<forall>dashboard d'. apply_updates B dashboard updates = Inr d'
             \<longrightarrow> sd_criteria d' = sd_criteria dashboard)"
proof -
  have b: "\<forall>dashboard d'. apply_updates B dashboard updates = Inr d'
             \<longrightarrow> sd_criteria d' = sd_criteria dashboard"
    using apply_updates_criteria[of B _ updates] assms by simp
  have a: "\<forall>d' \<in> set (saved (snd (update_dashboard B dashboard_id updates))).
            \<exists>dashboard. ScoreDefinition_get B dashboard_id = Some dashboard
                       \<and> sd_criteria d' = sd_criteria dashboard"
  proof (cases "validate_dashboard_id B dashboard_id")
    case (Pair r calls)
    show ?thesis
    proof (cases r)
      case (Inl e)
      with Pair show ?thesis by (simp add: update_dashboard_saved)
    next
      case (Inr dashboard)
      with Pair have g: "ScoreDefinition_get B dashboard_id = Some dashboard"
        using validate_dashboard_id_Inr by blast
      show ?thesis
        using Pair Inr g b
        by (cases "apply_updates B dashboard updates")
           (simp_all add: update_dashboard_saved)
    qed
  qed
  from a b show ?thesis by blast
qed

lemma demo_apply_updates:
  "apply_updates demo demo_dashboard demo_update =
     Inr (demo_dashboard\<lparr>sd_name := ''Sales 2'', sd_total_score := False,
            sd_cde_score := True,
            sd_category := Some (ScoreCategory ''data_source'' ''data_source'')\<rparr>)"
  by (simp add: apply_updates_def demo_update_def demo_def categories_def demo_dashboard_def)

lemma demo_update_saved:
  "saved (snd (update_dashboard demo ''0f1e2d3c-0000-4000-8000-000000000001'' demo_update)) =
     [demo_dashboard\<lparr>sd_name := ''Sales 2'', sd_total_score := False, sd_cde_score := True,
        sd_category := Some (ScoreCategory ''data_source'' ''data_source'')\<rparr>]"
  by (simp add: update_dashboard_saved demo_validate_dashboard_id demo_apply_updates)

theorem update_without_filters_keeps_criteria_witness:
  "upd_filters demo_update = None
   \<and> saved (snd (update_dashboard demo ''0f1e2d3c-0000-4000-8000-000000000001''
              demo_update)) =
      [demo_dashboard\<lparr>sd_name := ''Sales 2'', sd_total_score := False, sd_cde_score := True,
         sd_category := Some (ScoreCategory ''data_source'' ''data_source'')\<rparr>]
   \<and> ScoreDefinition_get demo ''0f1e2d3c-0000-4000-8000-000000000001'' = Some demo_dashboard
   \<and> sd_criteria (demo_dashboard\<lparr>sd_name := ''Sales 2'', sd_total_score := False,
        sd_cde_score := True,
        sd_category := Some (ScoreCategory ''data_source'' ''data_source'')\<rparr>)
      = sd_criteria demo_dashboard"
proof -
  have h: "upd_filters demo_update = None" by (simp add: demo_update_def)
  have g: "ScoreDefinition_get demo ''0f1e2d3c-0000-4000-8000-000000000001''
             = Some demo_dashboard"
    by (simp add: demo_def demo_dashboard_def)
  show ?thesis
    using h g demo_update_saved
      update_without_filters_keeps_criteria[OF h, of demo
        "''0f1e2d3c-0000-4000-8000-000000000001''"]
    by auto
qed

section \<open>Filter options\<close>

text \<open>
  C6.  A filter-options request for a project that does not exist fails with the
  404 error of the project check, whatever the five flags are; the only call made is
  the project lookup, so no filter-value or column query runs, and no
  \<^verbatim>\<open>FilterOptions\<close> value is returned.
\<close>

theorem filter_options_unknown_project:
  assumes "\<not> Project_exists B project_code"
  shows "get_dashboard_filter_options B project_code include_filter_values include_columns
           include_category_options include_score_grouping_options include_score_type_options
         = (Inl (HTTPException 404 (''Project '' @ quote project_code @ '' not found'')),
            [Project_query project_code])
       \<and> status_code (HTTPException 404 (''Project '' @ quote project_code @ '' not found''))
           = 404
       \<and> (\<forall>c \<in> set (snd (get_dashboard_filter_options B project_code include_filter_values
                  include_columns include_category_options include_score_grouping_options
                  include_score_type_options)). \<not> is_fetch_call c)"
  using assms by (simp add: get_dashboard_filter_options_def validate_project_code_def)

theorem filter_options_unknown_project_witness:
  "\<not> Project_exists demo ''NOPE''
   \<and> get_dashboard_filter_options demo ''NOPE'' True True True True True
       = (Inl (HTTPException 404 ''Project 'NOPE' not found''), [Project_query ''NOPE''])
   \<and> \<not> is_fetch_call (Project_query ''NOPE'' :: (pyval list \<times> bool) call)"
proof -
  have h: "\<not> Project_exists demo ''NOPE''" by (simp add: demo_def)
  show ?thesis
    using h filter_options_unknown_project[OF h, of True True True True True]
    by (simp add: quote_def)
qed

lemma filter_options_existing:
  assumes "Project_exists B project_code"
  shows "get_dashboard_filter_options B project_code fv ic co sg st =
     (case (if ic then fst (get_column_hierarchy B project_code) else Inr []) of
        Inl e \<Rightarrow> Inl e
      | Inr cols \<Rightarrow>
          Inr \<lparr>fo_filter_fields_metadata = (if fv then filter_fields_metadata_table else []),
               fo_filter_values =
                 (if fv then fst (get_filter_field_values B project_code) else []),
               fo_columns = cols,
               fo_category_options = (if co then category_options_table else []),
               fo_score_grouping_options = (if sg then score_grouping_options_table else []),
               fo_score_type_options = (if st then score_type_options_table else [])\<rparr>,
      [Project_query project_code]
      @ (if fv then [fetch_all_from_db_call (category_values_query categories) project_code]
         else [])
      @ (if ic then [fetch_all_from_db_call column_hierarchy_query project_code] else []))"
  using assms
  by (simp add: get_dashboard_filter_options_def validate_project_code_def Let_def
      get_filter_field_values_def get_column_hierarchy_def split: sum.splits)

text \<open>
  C8.  Whenever a filter-options request for an existing project returns a result:
  if grouping options were requested, the values of the returned grouping options
  are the thirteen values of the vocabulary, one for one and in the vocabulary's
  order, which is the order of the enumeration's members (column_name, table_name,
  dq_dimension, semantic_data_type, table_groups_name, data_location, data_source,
  source_system, source_process, business_domain, stakeholder_group,
  transform_level, data_product); and if category options were requested, the values
  of the returned category options are, without repetition, that vocabulary less
  column_name, table_name and semantic_data_type.
\<close>

theorem filter_options_tables_mirror_vocabulary:
  assumes "Project_exists B project_code"
      and "fst (get_dashboard_filter_options B project_code fv ic co sg st) = Inr fo"
  shows "(sg \<longrightarrow>
            option_values (fo_score_grouping_options fo) = map Some valid_categories
          \<and> option_values (fo_score_grouping_options fo)
              = map (\<lambda>m. Some (GroupByCategory_value m)) GroupByCategory_members
          \<and> length (fo_score_grouping_options fo) = 13
          \<and> distinct (option_values (fo_score_grouping_options fo)))
       \<and> (co \<longrightarrow>
            set (option_values (fo_category_options fo)) =
              Some ` (set valid_categories
                      - {''column_name'', ''table_name'', ''semantic_data_type''})
          \<and> distinct (option_values (fo_category_options fo))
          \<and> length (fo_category_options fo) = 10)
       \<and> valid_categories =
           [''column_name'', ''table_name'', ''dq_dimension'', ''semantic_data_type'',
            ''table_groups_name'', ''data_location'', ''data_source'', ''source_system'',
            ''source_process'', ''business_domain'', ''stakeholder_group'',
            ''transform_level'', ''data_product'']"
proof -
  have g: "fo_score_grouping_options fo = (if sg then score_grouping_options_table else [])"
    and c: "fo_category_options fo = (if co then category_options_table else [])"
    using assms(2) unfolding filter_options_existing[OF assms(1)]
    by (cases "if ic then fst (get_column_hierarchy B project_code) else Inr []"; auto)+
  note t = option_tables_values
  have a1: "option_values score_grouping_options_table = map Some valid_categories"
    using t by blast
  have a2: "option_values score_grouping_options_table
              = map (\<lambda>m. Some (GroupByCategory_value m)) GroupByCategory_members"
    unfolding a1 by (simp add: valid_categories_are_values)
  have a3: "length score_grouping_options_table = 13"
    using t by blast
  have a4: "distinct (option_values score_grouping_options_table)"
    using t by blast
  have b1: "set (option_values category_options_table) =
              Some ` (set valid_categories
                      - {''column_name'', ''table_name'', ''semantic_data_type''})"
    using t by blast
  have b2: "distinct (option_values category_options_table)"
    using t by blast
  have b3: "length category_options_table = 10"
    by (simp add: category_options_table_def)
  have v: "valid_categories =
           [''column_name'', ''table_name'', ''dq_dimension'', ''semantic_data_type'',
            ''table_groups_name'', ''data_location'', ''data_source'', ''source_system'',
            ''source_process'', ''business_domain'', ''stakeholder_group'',
            ''transform_level'', ''data_product'']"
    by (simp add: valid_categories_def)
  have G: "sg \<longrightarrow>
            option_values (fo_score_grouping_options fo) = map Some valid_categories
          \<and> option_values (fo_score_grouping_options fo)
              = map (\<lambda>m. Some (GroupByCategory_value m)) GroupByCategory_members
          \<and> length (fo_score_grouping_options fo) = 13
          \<and> distinct (option_values (fo_score_grouping_options fo))"
  proof
    assume sg
    then have "fo_score_grouping_options fo = score_grouping_options_table"
      using g by simp
    then show "option_values (fo_score_grouping_options fo) = map Some valid_categories
          \<and> option_values (fo_score_grouping_options fo)
              = map (\<lambda>m. Some (GroupByCategory_value m)) GroupByCategory_members
          \<and> length (fo_score_grouping_options fo) = 13
          \<and> distinct (option_values (fo_score_grouping_options fo))"
      using a1 a2 a3 a4 by (simp only: simp_thms)
  qed
  have C: "co \<longrightarrow>
            set (option_values (fo_category_options fo)) =
              Some ` (set valid_categories
                      - {''column_name'', ''table_name'', ''semantic_data_type''})
          \<and> distinct (option_values (fo_category_options fo))
          \<and> length (fo_category_options fo) = 10"
  proof
    assume co
    then have "fo_category_options fo = category_options_table"
      using c by simp
    then show "set (option_values (fo_category_options fo)) =
              Some ` (set valid_categories
                      - {''column_name'', ''table_name'', ''semantic_data_type''})
          \<and> distinct (option_values (fo_category_options fo))
          \<and> length (fo_category_options fo) = 10"
      using b1 b2 b3 by (simp only: simp_thms)
  qed
  from G C v show ?thesis by blast
qed

lemma demo_filter_options_tables:
  "fst (get_dashboard_filter_options demo ''DEFAULT'' False False True True False) =
     Inr \<lparr>fo_filter_fields_metadata = [], fo_filter_values = [], fo_columns = [],
          fo_category_options = category_options_table,
          fo_score_grouping_options = score_grouping_options_table,
          fo_score_type_options = []\<rparr>"
proof -
  have h: "Project_exists demo ''DEFAULT''" by (simp add: demo_def)
  show ?thesis by (simp add: filter_options_existing[OF h])
qed

theorem filter_options_tables_mirror_vocabulary_witness:
  "Project_exists demo ''DEFAULT''
   \<and> fst (get_dashboard_filter_options demo ''DEFAULT'' False False True True False) =
       Inr \<lparr>fo_filter_fields_metadata = [], fo_filter_values = [], fo_columns = [],
            fo_category_options = category_options_table,
            fo_score_grouping_options = score_grouping_options_table,
            fo_score_type_options = []\<rparr>
   \<and> option_values score_grouping_options_table = map Some valid_categories
   \<and> length score_grouping_options_table = 13
   \<and> set (option_values category_options_table) =
       Some ` (set valid_categories
               - {''column_name'', ''table_name'', ''semantic_data_type''})
   \<and> distinct (option_values category_options_table)"
proof -
  have h: "Project_exists demo ''DEFAULT''" by (simp add: demo_def)
  show ?thesis
    using h demo_filter_options_tables
      filter_options_tables_mirror_vocabulary[OF h demo_filter_options_tables]
    by simp
qed

text \<open>
  C7.  For an existing project: with all five flags false the request succeeds with
  all six collections empty after the project lookup alone.  For any flags, the
  filter-value query is issued exactly when \<^verbatim>\<open>include_filter_values\<close> holds and the
  column query exactly when \<^verbatim>\<open>include_columns\<close> holds; a returned result has the
  field metadata and the filter values present exactly when
  \<^verbatim>\<open>include_filter_values\<close> holds, the columns exactly when \<^verbatim>\<open>include_columns\<close>
  holds, and each of the three option tables exactly when its own flag holds; and
  the request returns a result unless columns are requested and a column row is
  refused by the column model.
\<close>

theorem filter_options_gated_by_flags:
  assumes "Project_exists B project_code"
  shows "get_dashboard_filter_options B project_code False False False False False
           = (Inr \<lparr>fo_filter_fields_metadata = [], fo_filter_values = [], fo_columns = [],
                   fo_category_options = [], fo_score_grouping_options = [],
                   fo_score_type_options = []\<rparr>,
              [Project_query project_code])
       \<and> snd (get_dashboard_filter_options B project_code fv ic co sg st)
           = [Project_query project_code]
             @ (if fv
                then [fetch_all_from_db_call (category_values_query categories) project_code]
                else [])
             @ (if ic then [fetch_all_from_db_call column_hierarchy_query project_code]
                else [])
       \<and> (\<forall>fo. fst (get_dashboard_filter_options B project_code fv ic co sg st) = Inr fo \<longrightarrow>
             fo_filter_fields_metadata fo = (if fv then filter_fields_metadata_table else [])
           \<and> fo_filter_values fo
               = (if fv then fst (get_filter_field_values B project_code) else [])
           \<and> Inr (fo_columns fo)
               = (if ic then fst (get_column_hierarchy B project_code) else Inr [])
           \<and> fo_category_options fo = (if co then category_options_table else [])
           \<and> fo_score_grouping_options fo
               = (if sg then score_grouping_options_table else [])
           \<and> fo_score_type_options fo = (if st then score_type_options_table else []))
       \<and> ((\<exists>fo. fst (get_dashboard_filter_options B project_code fv ic co sg st) = Inr fo)
            \<longleftrightarrow> (ic \<longrightarrow> (\<exists>cols. fst (get_column_hierarchy B project_code) = Inr cols)))"
proof -
  note eq = filter_options_existing[OF assms]
  have 1: "get_dashboard_filter_options B project_code False False False False False
           = (Inr \<lparr>fo_filter_fields_metadata = [], fo_filter_values = [], fo_columns = [],
                   fo_category_options = [], fo_score_grouping_options = [],
                   fo_score_type_options = []\<rparr>,
              [Project_query project_code])"
    by (simp add: eq)
  have 2: "snd (get_dashboard_filter_options B project_code fv ic co sg st)
           = [Project_query project_code]
             @ (if fv
                then [fetch_all_from_db_call (category_values_query categories) project_code]
                else [])
             @ (if ic then [fetch_all_from_db_call column_hierarchy_query project_code]
                else [])"
    by (simp add: eq)
  have 3: "\<forall>fo. fst (get_dashboard_filter_options B project_code fv ic co sg st) = Inr fo \<longrightarrow>
             fo_filter_fields_metadata fo = (if fv then filter_fields_metadata_table else [])
           \<and> fo_filter_values fo
               = (if fv then fst (get_filter_field_values B project_code) else [])
           \<and> Inr (fo_columns fo)
               = (if ic then fst (get_column_hierarchy B project_code) else Inr [])
           \<and> fo_category_options fo = (if co then category_options_table else [])
           \<and> fo_score_grouping_options fo
               = (if sg then score_grouping_options_table else [])
           \<and> fo_score_type_options fo = (if st then score_type_options_table else [])"
    unfolding eq
    by (cases "if ic then fst (get_column_hierarchy B project_code) else Inr []") auto
  have 4: "(\<exists>fo. fst (get_dashboard_filter_options B project_code fv ic co sg st) = Inr fo)
            \<longleftrightarrow> (ic \<longrightarrow> (\<exists>cols. fst (get_column_hierarchy B project_code) = Inr cols))"
    unfolding eq
    by (cases "fst (get_column_hierarchy B project_code)") auto
  from 1 2 3 4 show ?thesis by blast
qed

lemma demo_filter_field_values:
  "fst (get_filter_field_values demo ''DEFAULT'') =
     [(''data_source'', [''alpha'', ''Beta'']), (''business_domain'', [''finance''])]"
  by (simp add: get_filter_field_values_def demo_def truthy_def)

lemma demo_filter_options:
  "get_dashboard_filter_options demo ''DEFAULT'' True False False False True =
     (Inr \<lparr>fo_filter_fields_metadata = filter_fields_metadata_table,
           fo_filter_values =
             [(''data_source'', [''alpha'', ''Beta'']), (''business_domain'', [''finance''])],
           fo_columns = [], fo_category_options = [], fo_score_grouping_options = [],
           fo_score_type_options = score_type_options_table\<rparr>,
      [Project_query ''DEFAULT'',
       fetch_all_from_db_call (category_values_query categories) ''DEFAULT''])"
proof -
  have h: "Project_exists demo ''DEFAULT''" by (simp add: demo_def)
  show ?thesis by (simp add: filter_options_existing[OF h] demo_filter_field_values)
qed

theorem filter_options_gated_by_flags_witness:
  "Project_exists demo ''DEFAULT''
   \<and> fst (get_dashboard_filter_options demo ''DEFAULT'' True False False False True) =
       Inr \<lparr>fo_filter_fields_metadata = filter_fields_metadata_table,
            fo_filter_values =
              [(''data_source'', [''alpha'', ''Beta'']), (''business_domain'', [''finance''])],
            fo_columns = [], fo_category_options = [], fo_score_grouping_options = [],
            fo_score_type_options = score_type_options_table\<rparr>
   \<and> get_dashboard_filter_options demo ''DEFAULT'' False False False False False
       = (Inr \<lparr>fo_filter_fields_metadata = [], fo_filter_values = [], fo_columns = [],
               fo_category_options = [], fo_score_grouping_options = [],
               fo_score_type_options = []\<rparr>,
          [Project_query ''DEFAULT''])"
proof -
  have h: "Project_exists demo ''DEFAULT''" by (simp add: demo_def)
  show ?thesis
    using h demo_filter_options
      filter_options_gated_by_flags[OF h, of True False False False True]
    by simp
qed

section \<open>Grouping the filter values\<close>

lemma map_of_append_value:
  "map_of (append_value key v vals) k =
     (if k = key then Some (dict_get (map_of vals) key [] @ [v]) else map_of vals k)"
  by (induction key v vals rule: append_value.induct) (auto simp: dict_get_def)

lemma keys_append_value:
  "map fst (append_value key v vals) =
     (if key \<in> fst ` set vals then map fst vals else map fst vals @ [key])"
  by (induction key v vals rule: append_value.induct) auto

lemma observed_Nil: "observed [] k = []"
  by (simp add: observed_def)

lemma observed_Cons:
  "observed (row # results) k =
     (case (row_category row, row_value row) of
        (Some c, Some v) \<Rightarrow>
          if c = k \<and> c \<noteq> [] \<and> v \<noteq> [] then v # observed results k
          else observed results k
      | _ \<Rightarrow> observed results k)"
  by (auto simp add: observed_def split: option.splits)

lemma map_of_group_values:
  "map_of (group_values results vals) k =
     (case map_of vals k of
        None \<Rightarrow> if observed results k = [] then None else Some (observed results k)
      | Some vs \<Rightarrow> Some (vs @ observed results k))"
proof (induction results arbitrary: vals)
  case Nil
  then show ?case by (simp add: observed_Nil split: option.splits)
next
  case (Cons row results)
  show ?case
    by (cases "row_category row"; cases "row_value row")
       (auto simp add: Cons.IH observed_Cons truthy_def map_of_append_value dict_get_def
          split: option.splits)
qed

lemma distinct_group_values:
  "distinct (map fst vals) \<Longrightarrow> distinct (map fst (group_values results vals))"
proof (induction results arbitrary: vals)
  case Nil
  then show ?case by simp
next
  case (Cons row results)
  have "distinct (map fst (append_value c v vals))" for c v
    using Cons.prems by (auto simp add: keys_append_value)
  then show ?case using Cons.prems
    by (cases "row_category row"; cases "row_value row") (auto intro!: Cons.IH)
qed

text \<open>
  C10.  Whatever rows the query returns, null and empty categories and values
  included: the mapping returned by \<^verbatim>\<open>get_filter_field_values\<close> has each key once;
  a category is a key exactly when some row carries it with a non-null, non-empty
  value and the category itself is non-empty; and the list under a key is the list of
  those values in the order of the rows.
\<close>

theorem filter_values_grouping:
  "map_of (fst (get_filter_field_values B project_code)) k =
     (if observed (fetch_category_values B project_code) k = [] then None
      else Some (observed (fetch_category_values B project_code) k))
   \<and> distinct (map fst (fst (get_filter_field_values B project_code)))
   \<and> (k \<in> fst ` set (fst (get_filter_field_values B project_code))
        \<longleftrightarrow> observed (fetch_category_values B project_code) k \<noteq> [])
   \<and> observed (fetch_category_values B project_code) k =
       map (\<lambda>row. case row_value row of Some v \<Rightarrow> v | None \<Rightarrow> [])
         (filter (\<lambda>row. row_category row = Some k \<and> k \<noteq> []
                        \<and> row_value row \<noteq> None \<and> row_value row \<noteq> Some [])
            (fetch_category_values B project_code))"
proof -
  let ?r = "fetch_category_values B project_code"
  have m: "map_of (group_values ?r []) k =
             (if observed ?r k = [] then None else Some (observed ?r k))"
    by (simp add: map_of_group_values)
  have "k \<in> fst ` set (group_values ?r []) \<longleftrightarrow> map_of (group_values ?r []) k \<noteq> None"
    by (simp add: map_of_eq_None_iff)
  moreover have "observed rs k =
       map (\<lambda>row. case row_value row of Some v \<Rightarrow> v | None \<Rightarrow> [])
         (filter (\<lambda>row. row_category row = Some k \<and> k \<noteq> []
                        \<and> row_value row \<noteq> None \<and> row_value row \<noteq> Some []) rs)" for rs
    by (induction rs) (auto simp add: observed_Nil observed_Cons split: option.splits)
  ultimately show ?thesis
    using m distinct_group_values[of "[]" ?r]
    by (simp add: get_filter_field_values_def Let_def)
qed

end
